theory Spec2Isabelle
  imports Main "HOL-Library.AList"
begin

section \<open>Core types (core/types.ts)\<close>

datatype FileChangeType = Create | Modify | Delete | Move

datatype SyncDirection = LocalToRemote | RemoteToLocal | Bidirectional

datatype ConflictPolicy = LocalWins | RemoteWins | Newest | Manual

datatype SyncState =
  Idle | Initializing | Connecting | Watching | Syncing | Error | Recovering

text \<open>
  A \<open>Date\<close> is kept as its millisecond time value. \<open>FileChangeEvent\<close> is the
  interface of core/types.ts; the optional \<open>oldPath\<close> is an option.
\<close>

type_synonym Date = int

record FileChangeEvent =
  ev_type :: FileChangeType
  path :: string
  timestamp :: Date
  oldPath :: "string option"

record SyncResult =
  success :: bool
  jobId :: string
  res_filesTransferred :: nat
  res_bytesTransferred :: nat
  duration :: int
  errors :: "string list"

record SpawnArgs =
  command :: string
  args :: "string list"
  cwd :: "string option"

section \<open>Profile (domain/entities/Profile.ts, ProfileConfig)\<close>

text \<open>
  \<open>Profile\<close> and the plain \<open>ProfileConfig\<close> that \<open>toPlainObject\<close> returns carry
  the same nine fields, so one record serves for both. \<open>sshPort\<close> is a JavaScript
  number that the validator restricts to integers; it is an \<open>int\<close> here.
\<close>

record Profile =
  profile_alias :: string
  remoteUser :: string
  remoteHost :: string
  remoteDir :: string
  localDir :: string
  sshPort :: int
  direction :: SyncDirection
  conflictPolicy :: ConflictPolicy
  exclude :: "string list"

type_synonym ProfileConfig = Profile

section \<open>SyncJob (domain/entities/SyncJob.ts)\<close>

datatype SyncJobStatus = Pending | Running | Completed | Failed

datatype SyncStrategy = Full | Incremental

record SyncJob =
  job_id :: string
  job_profile :: Profile
  files :: "string list"
  strategy :: SyncStrategy
  createdAt :: Date
  status :: SyncJobStatus
  startedAt :: "Date option"
  completedAt :: "Date option"
  job_error :: "string option"
  filesTransferred :: nat
  bytesTransferred :: nat

text \<open>
  The constructor. \<open>params.files\<close> and \<open>params.strategy\<close> are optional; the
  identifier and the creation time come from the caller (\<open>generateId\<close> and
  \<open>new Date()\<close> read the clock and the random generator).
\<close>

definition new_SyncJob ::
  "string \<Rightarrow> Profile \<Rightarrow> string list option \<Rightarrow> SyncStrategy option \<Rightarrow> Date \<Rightarrow> SyncJob" where
  "new_SyncJob i p fs st now =
     \<lparr> job_id = i,
       job_profile = p,
       files = (case fs of None \<Rightarrow> [] | Some xs \<Rightarrow> xs),
       strategy = (case st of
                     Some s \<Rightarrow> s
                   | None \<Rightarrow> (case fs of
                                 None \<Rightarrow> Full
                               | Some xs \<Rightarrow> if length xs > 0 then Incremental else Full)),
       createdAt = now,
       status = Pending,
       startedAt = None,
       completedAt = None,
       job_error = None,
       filesTransferred = 0,
       bytesTransferred = 0 \<rparr>"

text \<open>
  JavaScript renders a status in the message of the raised \<open>Error\<close>.
\<close>

fun status_name :: "SyncJobStatus \<Rightarrow> string" where
  "status_name Pending = ''pending''"
| "status_name Running = ''running''"
| "status_name Completed = ''completed''"
| "status_name Failed = ''failed''"

datatype js_error = JsError string

text \<open>
  The three lifecycle methods mutate the job or throw. Each returns the outcome of the
  call (\<open>Inl\<close> the thrown error, \<open>Inr ()\<close> a normal return) together with the job as
  it is after the call. The time of the call is the argument \<open>now\<close>.
\<close>

definition start :: "Date \<Rightarrow> SyncJob \<Rightarrow> (js_error + unit) \<times> SyncJob" where
  "start now j =
     (if status j \<noteq> Pending
      then (Inl (JsError (''Cannot start job in '' @ status_name (status j) @ '' status'')), j)
      else (Inr (), j\<lparr>status := Running, startedAt := Some now\<rparr>))"

definition complete :: "Date \<Rightarrow> nat \<Rightarrow> nat \<Rightarrow> SyncJob \<Rightarrow> (js_error + unit) \<times> SyncJob" where
  "complete now ft bt j =
     (if status j \<noteq> Running
      then (Inl (JsError (''Cannot complete job in '' @ status_name (status j) @ '' status'')), j)
      else (Inr (), j\<lparr>status := Completed, completedAt := Some now,
                       filesTransferred := ft, bytesTransferred := bt\<rparr>))"

definition fail :: "Date \<Rightarrow> string \<Rightarrow> SyncJob \<Rightarrow> (js_error + unit) \<times> SyncJob" where
  "fail now e j =
     (if status j \<noteq> Running
      then (Inl (JsError (''Cannot fail job in '' @ status_name (status j) @ '' status'')), j)
      else (Inr (), j\<lparr>status := Failed, completedAt := Some now, job_error := Some e\<rparr>))"

section \<open>Event bus (application/events/SyncEventBus.ts)\<close>

text \<open>
  The bus fires one emitter per kind of event. The model keeps the events fired so far,
  oldest first.
\<close>

datatype SyncEvent =
  StateChanged SyncState SyncState "Profile option"
| SyncStarted SyncJob
| SyncCompleted SyncJob SyncResult
| SyncFailed SyncJob string
| FilesChanged "string list"
| ErrorEvent string bool

section \<open>State machine (application/SyncStateMachine.ts)\<close>

fun VALID_TRANSITIONS :: "SyncState \<Rightarrow> SyncState list" where
  "VALID_TRANSITIONS Idle = [Initializing]"
| "VALID_TRANSITIONS Initializing = [Connecting, Error, Idle]"
| "VALID_TRANSITIONS Connecting = [Watching, Error, Idle]"
| "VALID_TRANSITIONS Watching = [Syncing, Error, Idle]"
| "VALID_TRANSITIONS Syncing = [Watching, Error]"
| "VALID_TRANSITIONS Error = [Recovering, Idle]"
| "VALID_TRANSITIONS Recovering = [Watching, Error, Idle]"

text \<open>
  The private fields of the class. \<open>eventBus\<close> is the bus the machine was constructed
  with: the orchestrator creates it and hands it to its state machine, so the log of that
  one bus lives here. Calls to the logger change nothing and are left out.
  \<open>retryCount\<close> and \<open>maxRetries\<close> are JavaScript numbers that only hold counts; they
  are natural numbers here.
\<close>

record SyncStateMachine =
  state :: SyncState
  profile :: "Profile option"
  lastError :: "string option"
  retryCount :: nat
  maxRetries :: nat
  eventBus :: "SyncEvent list"

definition new_SyncStateMachine :: "nat option \<Rightarrow> SyncStateMachine" where
  "new_SyncStateMachine opt =
     \<lparr> state = Idle, profile = None, lastError = None, retryCount = 0,
       maxRetries = (case opt of None \<Rightarrow> 3 | Some n \<Rightarrow> n),
       eventBus = [] \<rparr>"

text \<open>The optional second argument of \<open>transition\<close>; an absent argument is both \<open>None\<close>.\<close>

record TransitionContext =
  ctx_profile :: "Profile option"
  ctx_error :: "string option"

definition no_context :: TransitionContext where
  "no_context = \<lparr> ctx_profile = None, ctx_error = None \<rparr>"



definition canTransitionTo :: "SyncStateMachine \<Rightarrow> SyncState \<Rightarrow> bool" where
  "canTransitionTo sm targetState = List.member (VALID_TRANSITIONS (state sm)) targetState"

text \<open>
  \<open>transition\<close> returns its boolean and the machine after the call. The test
  \<open>if (context?.error)\<close> is JavaScript truthiness: an empty string does not replace
  \<open>lastError\<close>. A profile is an object, so it is truthy whenever it is present.
\<close>

definition transition ::
  "SyncState \<Rightarrow> TransitionContext \<Rightarrow> SyncStateMachine \<Rightarrow> bool \<times> SyncStateMachine" where
  "transition newState ctx sm =
     (if \<not> canTransitionTo sm newState then (False, sm)
      else
        let oldState = state sm;
            sm1 = sm\<lparr>state := newState\<rparr>;
            sm2 = (case ctx_profile ctx of
                     Some p \<Rightarrow> sm1\<lparr>profile := Some p\<rparr>
                   | None \<Rightarrow> sm1);
            sm3 = (case ctx_error ctx of
                     Some e \<Rightarrow> if e \<noteq> [] then sm2\<lparr>lastError := Some e\<rparr> else sm2
                   | None \<Rightarrow> sm2);
            sm4 = (if newState = Watching then sm3\<lparr>retryCount := 0\<rparr> else sm3);
            sm5 = (if newState = Recovering then sm4\<lparr>retryCount := retryCount sm4 + 1\<rparr> else sm4);
            sm6 = (if newState = Idle
                   then sm5\<lparr>profile := None, lastError := None, retryCount := 0\<rparr>
                   else sm5)
        in (True, sm6\<lparr>eventBus := eventBus sm6 @ [StateChanged oldState newState (profile sm6)]\<rparr>))"

definition reset :: "SyncStateMachine \<Rightarrow> SyncStateMachine" where
  "reset sm =
     (let oldState = state sm;
          sm1 = sm\<lparr>state := Idle, profile := None, lastError := None, retryCount := 0\<rparr>
      in if oldState \<noteq> Idle
         then sm1\<lparr>eventBus := eventBus sm1 @ [StateChanged oldState Idle None]\<rparr>
         else sm1)"

definition getAvailableTransitions :: "SyncStateMachine \<Rightarrow> SyncState list" where
  "getAvailableTransitions sm = VALID_TRANSITIONS (state sm)"

text \<open>
  The table of legal transitions as the specification lists it, pair by pair.
\<close>

definition spec_legal_transitions :: "(SyncState \<times> SyncState) list" where
  "spec_legal_transitions =
     [(Idle, Initializing),
      (Initializing, Connecting), (Initializing, Error), (Initializing, Idle),
      (Connecting, Watching), (Connecting, Error), (Connecting, Idle),
      (Watching, Syncing), (Watching, Error), (Watching, Idle),
      (Syncing, Watching), (Syncing, Error),
      (Error, Recovering), (Error, Idle),
      (Recovering, Watching), (Recovering, Error), (Recovering, Idle)]"

section \<open>Path utilities (core/utils/PathUtils.ts)\<close>

text \<open>
  Node's \<open>path.sep\<close> on POSIX systems, the only platform that has the
  \<open>inotifywait\<close> tool the extension requires.
\<close>

definition path_sep :: string where
  "path_sep = ''/''"

definition endsWith :: "string \<Rightarrow> string \<Rightarrow> bool" where
  "endsWith s suf = (length suf \<le> length s \<and> drop (length s - length suf) s = suf)"

definition ensureTrailingSlash :: "string \<Rightarrow> string" where
  "ensureTrailingSlash inputPath =
     (if endsWith inputPath path_sep then inputPath else inputPath @ path_sep)"

section \<open>Numbers in template strings\<close>

text \<open>
  A template string renders an integral number in decimal, with a leading minus sign
  when it is negative. This holds for integers of magnitude below \<open>10^21\<close>, from
  where on JavaScript writes an exponent; the numbers rendered here (a port, which the
  validator keeps within 1 to 65535, an exit code, a retry count) stay far below.
\<close>

definition digit_char :: "nat \<Rightarrow> char" where
  "digit_char d = ''0123456789'' ! d"

fun string_of_nat :: "nat \<Rightarrow> string" where
  "string_of_nat n =
     (if n < 10 then [digit_char n] else string_of_nat (n div 10) @ [digit_char (n mod 10)])"

declare string_of_nat.simps [simp del]

definition number_to_string :: "int \<Rightarrow> string" where
  "number_to_string i =
     (if i < 0 then ''-'' @ string_of_nat (nat (- i)) else string_of_nat (nat i))"

section \<open>rsync command builder (infrastructure/sync/RsyncCommandBuilder.ts)\<close>

definition buildBaseArgs :: "ProfileConfig \<Rightarrow> string list" where
  "buildBaseArgs p =
     [''-a'', ''-z'']
     @ [''-e'', ''ssh -p '' @ number_to_string (sshPort p) @ '' -o StrictHostKeyChecking=accept-new'']
     @ concat (map (\<lambda>pattern. [''--exclude'', pattern]) (exclude p))"

definition buildRemoteDestination :: "ProfileConfig \<Rightarrow> string" where
  "buildRemoteDestination p =
     (let remoteDir' = ensureTrailingSlash (remoteDir p)
      in remoteUser p @ ''@'' @ remoteHost p @ '':'' @ remoteDir')"

definition buildFullSync :: "ProfileConfig \<Rightarrow> SpawnArgs" where
  "buildFullSync p =
     (let args0 = buildBaseArgs p;
          args1 = args0 @ [''--delete''];
          source = ensureTrailingSlash (localDir p);
          dest = buildRemoteDestination p
      in \<lparr> command = ''rsync'', args = args1 @ [source] @ [dest], cwd = None \<rparr>)"

definition buildIncrementalSync :: "ProfileConfig \<Rightarrow> string list \<Rightarrow> SpawnArgs" where
  "buildIncrementalSync p fs =
     (if length fs = 0 then buildFullSync p
      else
        let args0 = buildBaseArgs p;
            args1 = args0 @ [''--files-from=-''];
            source = ensureTrailingSlash (localDir p);
            dest = buildRemoteDestination p
        in \<lparr> command = ''rsync'', args = args1 @ [source] @ [dest], cwd = Some (localDir p) \<rparr>)"

definition buildDryRun :: "ProfileConfig \<Rightarrow> SpawnArgs" where
  "buildDryRun p =
     (let args0 = buildBaseArgs p;
          args1 = args0 @ [''--dry-run''] @ [''--delete''] @ [''-v''];
          source = ensureTrailingSlash (localDir p);
          dest = buildRemoteDestination p
      in \<lparr> command = ''rsync'', args = args1 @ [source] @ [dest], cwd = None \<rparr>)"

text \<open>
  Reading an argument vector: the pairs of neighbouring arguments, in which a flag
  stands next to its value.
\<close>

definition arg_pairs :: "string list \<Rightarrow> (string \<times> string) list" where
  "arg_pairs xs = zip xs (tl xs)"

section \<open>rsync errors (domain/errors/RsyncError.ts)\<close>

definition RSYNC_EXIT_CODES :: "(int \<times> string) list" where
  "RSYNC_EXIT_CODES =
     [(0, ''Success''),
      (1, ''Syntax or usage error''),
      (2, ''Protocol incompatibility''),
      (3, ''Errors selecting input/output files, dirs''),
      (4, ''Requested action not supported''),
      (5, ''Error starting client-server protocol''),
      (6, ''Daemon unable to append to log-file''),
      (10, ''Error in socket I/O''),
      (11, ''Error in file I/O''),
      (12, ''Error in rsync protocol data stream''),
      (13, ''Errors with program diagnostics''),
      (14, ''Error in IPC code''),
      (20, ''Received SIGUSR1 or SIGINT''),
      (21, ''Some error returned by waitpid()''),
      (22, ''Error allocating core memory buffers''),
      (23, ''Partial transfer due to error''),
      (24, ''Partial transfer due to vanished source files''),
      (25, ''The --max-delete limit stopped deletions''),
      (30, ''Timeout in data send/receive''),
      (35, ''Timeout waiting for daemon connection'')]"

definition RECOVERABLE_EXIT_CODES :: "int list" where
  "RECOVERABLE_EXIT_CODES = [12, 23, 24, 30, 35]"

record RsyncError =
  code :: string
  recoverable :: bool
  exitCode :: int
  stderr :: string
  message :: string

text \<open>
  The constructor of \<open>RsyncError\<close>. Every description in the table is a non-empty
  string, so \<open>RSYNC_EXIT_CODES[exitCode] || 'Unknown error'\<close> falls back only for a
  code that is not in the table.
\<close>

definition new_RsyncError :: "int \<Rightarrow> string \<Rightarrow> RsyncError" where
  "new_RsyncError ec se =
     (let description = (case map_of RSYNC_EXIT_CODES ec of
                           Some d \<Rightarrow> d
                         | None \<Rightarrow> ''Unknown error'')
      in \<lparr> code = ''RSYNC_ERROR'',
           recoverable = List.member RECOVERABLE_EXIT_CODES ec,
           exitCode = ec,
           stderr = se,
           message = ''rsync failed (exit code '' @ number_to_string ec @ ''): '' @ description \<rparr>)"

section \<open>Sync strategies (domain/services/strategies) and their selection (SyncService.ts)\<close>

datatype ISyncStrategy = IncrementalSyncStrategy | FullSyncStrategy

fun strategy_name :: "ISyncStrategy \<Rightarrow> string" where
  "strategy_name IncrementalSyncStrategy = ''incremental''"
| "strategy_name FullSyncStrategy = ''full''"

fun canHandle :: "ISyncStrategy \<Rightarrow> SyncJob \<Rightarrow> bool" where
  "canHandle IncrementalSyncStrategy job = (length (files job) > 0 \<and> strategy job = Incremental)"
| "canHandle FullSyncStrategy job = (length (files job) = 0 \<or> strategy job = Full)"

text \<open>The strategies of the service, in the order the constructor lists them.\<close>

definition strategies :: "ISyncStrategy list" where
  "strategies = [IncrementalSyncStrategy, FullSyncStrategy]"

text \<open>
  The loop of \<open>selectStrategy\<close> returns the first strategy that can handle the job;
  when the loop ends without one, the last strategy of the list is returned.
\<close>

fun first_able :: "ISyncStrategy list \<Rightarrow> SyncJob \<Rightarrow> ISyncStrategy option" where
  "first_able [] job = None"
| "first_able (s # ss) job = (if canHandle s job then Some s else first_able ss job)"

definition selectStrategy :: "SyncJob \<Rightarrow> ISyncStrategy" where
  "selectStrategy job =
     (case first_able strategies job of
        Some s \<Rightarrow> s
      | None \<Rightarrow> strategies ! (length strategies - 1))"

definition createFullSyncJob :: "string \<Rightarrow> Date \<Rightarrow> Profile \<Rightarrow> SyncJob" where
  "createFullSyncJob i now p = new_SyncJob i p None (Some Full) now"

definition createIncrementalSyncJob :: "string \<Rightarrow> Date \<Rightarrow> Profile \<Rightarrow> string list \<Rightarrow> SyncJob" where
  "createIncrementalSyncJob i now p fs = new_SyncJob i p (Some fs) (Some Incremental) now"

section \<open>Credential manager (infrastructure/credentials/CredentialManager.ts)\<close>

definition SECRET_KEY_PREFIX :: string where
  "SECRET_KEY_PREFIX = ''watchSync.password''"

definition getSecretKey :: "string \<Rightarrow> string \<Rightarrow> string" where
  "getSecretKey host user = SECRET_KEY_PREFIX @ ''.'' @ user @ ''@'' @ host"

text \<open>The secret storage of the editor: a store of strings under string keys.\<close>

type_synonym SecretStorage = "string \<rightharpoonup> string"

definition getPassword :: "string \<Rightarrow> string \<Rightarrow> SecretStorage \<Rightarrow> string option" where
  "getPassword host user st = st (getSecretKey host user)"

definition setPassword :: "string \<Rightarrow> string \<Rightarrow> string \<Rightarrow> SecretStorage \<Rightarrow> SecretStorage" where
  "setPassword host user password st = st(getSecretKey host user \<mapsto> password)"

definition deletePassword :: "string \<Rightarrow> string \<Rightarrow> SecretStorage \<Rightarrow> SecretStorage" where
  "deletePassword host user st = st(getSecretKey host user := None)"

definition hasPassword :: "string \<Rightarrow> string \<Rightarrow> SecretStorage \<Rightarrow> bool" where
  "hasPassword host user st = (getPassword host user st \<noteq> None)"

text \<open>
  What the operator does. \<open>inputBox\<close> is the result of \<open>showInputBox\<close>: \<open>None\<close>
  when the prompt is dismissed, the submitted text otherwise. \<open>quickPick\<close> is the result
  of \<open>showQuickPick\<close>, read only if that second dialog is shown.
\<close>

record Operator =
  inputBox :: "string option"
  quickPick :: "string option"

text \<open>
  The outcome of \<open>promptForPassword\<close>: the value returned, the secret storage after
  the call, and whether the dialog that offers to save the password was shown.
\<close>

record PromptOutcome =
  returned :: "string option"
  storage :: SecretStorage
  saveOffered :: bool

definition promptForPassword ::
  "string \<Rightarrow> string \<Rightarrow> Operator \<Rightarrow> SecretStorage \<Rightarrow> PromptOutcome" where
  "promptForPassword host user ui st =
     (case inputBox ui of
        None \<Rightarrow> \<lparr> returned = None, storage = st, saveOffered = False \<rparr>
      | Some password \<Rightarrow>
          if password \<noteq> []
          then
            let save = quickPick ui;
                st' = (if save = Some ''Yes, save password''
                       then setPassword host user password st else st)
            in \<lparr> returned = Some password, storage = st', saveOffered = True \<rparr>
          else \<lparr> returned = Some password, storage = st, saveOffered = False \<rparr>)"

definition getOrPromptPassword ::
  "string \<Rightarrow> string \<Rightarrow> Operator \<Rightarrow> SecretStorage \<Rightarrow> PromptOutcome" where
  "getOrPromptPassword host user ui st =
     (case getPassword host user st of
        Some stored \<Rightarrow>
          if stored \<noteq> []
          then \<lparr> returned = Some stored, storage = st, saveOffered = False \<rparr>
          else promptForPassword host user ui st
      | None \<Rightarrow> promptForPassword host user ui st)"

section \<open>File watcher (infrastructure/watcher/InotifyWatcher.ts)\<close>

text \<open>
  The state of the watcher that queueing and flushing touch. \<open>pendingEvents\<close> is a
  JavaScript \<open>Map\<close>: it keeps its keys in order of first insertion, and setting an
  existing key replaces the value in place; this is an association list under
  \<open>AList.update\<close>. \<open>debounceTimer\<close> tells whether a timeout is pending.
  \<open>onDidChange\<close> holds the batches fired to the subscribers so far, oldest first.
\<close>

record InotifyWatcher =
  pendingEvents :: "(string \<times> FileChangeEvent) list"
  debounceTimer :: bool
  onDidChange :: "FileChangeEvent list list"

definition new_InotifyWatcher :: InotifyWatcher where
  "new_InotifyWatcher = \<lparr> pendingEvents = [], debounceTimer = False, onDidChange = [] \<rparr>"

definition queueEvent :: "FileChangeEvent \<Rightarrow> InotifyWatcher \<Rightarrow> InotifyWatcher" where
  "queueEvent event w =
     w\<lparr> pendingEvents := AList.update (path event) event (pendingEvents w),
        debounceTimer := True \<rparr>"

definition flushEvents :: "InotifyWatcher \<Rightarrow> InotifyWatcher" where
  "flushEvents w =
     (if length (pendingEvents w) = 0 then w
      else
        let events = map snd (pendingEvents w)
        in w\<lparr> pendingEvents := [], onDidChange := onDidChange w @ [events] \<rparr>)"

text \<open>
  The pending timeout expires: its callback flushes. Without a pending timeout nothing
  happens.
\<close>

definition debounce_fires :: "InotifyWatcher \<Rightarrow> InotifyWatcher" where
  "debounce_fires w =
     (if debounceTimer w then flushEvents (w\<lparr>debounceTimer := False\<rparr>) else w)"

text \<open>
  One quiet window: the events queued one after the other with no expiry in between,
  then the expiry of the timer.
\<close>

definition quiet_window :: "FileChangeEvent list \<Rightarrow> InotifyWatcher \<Rightarrow> InotifyWatcher" where
  "quiet_window evs w = debounce_fires (fold queueEvent evs w)"

text \<open>The events of a list that are on a given path, in their order.\<close>

definition events_on :: "string \<Rightarrow> FileChangeEvent list \<Rightarrow> FileChangeEvent list" where
  "events_on p evs = filter (\<lambda>e. path e = p) evs"

text \<open>
  Every entry of the pending map is stored under the path of its event.
\<close>

definition keyed :: "(string \<times> FileChangeEvent) list \<Rightarrow> bool" where
  "keyed al = (\<forall>(k, e) \<in> set al. path e = k)"

text \<open>Three events of one window, two of them on the same path.\<close>

definition ev_modify_a :: FileChangeEvent where
  "ev_modify_a = \<lparr> ev_type = Modify, path = ''/w/a.ts'', timestamp = 1, oldPath = None \<rparr>"

definition ev_create_b :: FileChangeEvent where
  "ev_create_b = \<lparr> ev_type = Create, path = ''/w/b.ts'', timestamp = 2, oldPath = None \<rparr>"

definition ev_delete_a :: FileChangeEvent where
  "ev_delete_a = \<lparr> ev_type = Delete, path = ''/w/a.ts'', timestamp = 3, oldPath = None \<rparr>"

section \<open>Sync service (domain/services/SyncService.ts)\<close>






section \<open>Orchestrator (application/SyncOrchestrator.ts)\<close>

text \<open>
  The methods of the orchestrator are asynchronous. Each is modelled in the pieces
  between its \<open>await\<close>s: a piece runs without interruption; at an \<open>await\<close> the
  method rests until the awaited operation settles, and pieces of other calls may run in
  between.

  An in-flight job is awaited either by the change handler or by a call of \<open>start\<close>;
  calls of \<open>start\<close> are told apart by a number. A call of \<open>start\<close> that rests
  at an \<open>await\<close> is recorded with its profile and the \<open>await\<close> it rests at.
\<close>

datatype Awaiter = ChangeHandler | StartCall nat

datatype StartPhase =
  AwaitStop | AwaitValidate | AwaitRsyncCheck | AwaitInotifyCheck
| AwaitConnection | AwaitSync | AwaitWatcherStart

text \<open>
  The orchestrator: its state machine (which holds the log of the shared event bus),
  whether it holds a subscription to the watcher, and whether a recovery timeout is
  pending. The other three fields are bookkeeping of the model for what rests at an
  \<open>await\<close>: the number of calls of \<open>stop\<close> that wait for the watcher to stop, the
  calls of \<open>start\<close> under way, and the jobs handed to \<open>syncService.sync\<close> whose
  promise has not settled yet, that is, the transfers that are running.
\<close>

record SyncOrchestrator =
  stateMachine :: SyncStateMachine
  watcherSubscription :: bool
  recoveryTimeout :: bool
  stopsPending :: nat
  starting :: "(nat \<times> Profile \<times> StartPhase) list"
  inFlight :: "(SyncJob \<times> Awaiter) list"

definition emit :: "SyncEvent \<Rightarrow> SyncOrchestrator \<Rightarrow> SyncOrchestrator" where
  "emit ev orch =
     orch\<lparr>stateMachine := (stateMachine orch)\<lparr>eventBus := eventBus (stateMachine orch) @ [ev]\<rparr>\<rparr>"

text \<open>The orchestrator never reads the boolean that \<open>transition\<close> returns.\<close>

definition do_transition ::
  "SyncState \<Rightarrow> TransitionContext \<Rightarrow> SyncOrchestrator \<Rightarrow> SyncOrchestrator" where
  "do_transition newState ctx orch =
     orch\<lparr>stateMachine := snd (transition newState ctx (stateMachine orch))\<rparr>"




subsection \<open>The change handler\<close>




subsection \<open>stop and dispose\<close>





subsection \<open>start\<close>










subsection \<open>Runs\<close>








section \<open>A concrete profile\<close>

text \<open>
  The profile of the builder's test suite with the values the specification names,
  on the default port.
\<close>

definition deploy_profile :: Profile where
  "deploy_profile =
     \<lparr> profile_alias = ''test-profile'',
       remoteUser = ''deploy'',
       remoteHost = ''prod.example.com'',
       remoteDir = ''/var/www/app'',
       localDir = ''/local/path'',
       sshPort = 22,
       direction = LocalToRemote,
       conflictPolicy = LocalWins,
       exclude = [''.git'', ''node_modules''] \<rparr>"


section \<open>Theorems: state machine\<close>

lemma canTransitionTo_table:
  "canTransitionTo sm t = ((state sm, t) \<in> set spec_legal_transitions)"
  by (cases "state sm"; cases t) (simp_all add: canTransitionTo_def spec_legal_transitions_def)

lemma transition_rejected: "\<not> canTransitionTo sm t \<Longrightarrow> transition t ctx sm = (False, sm)"
  by (simp add: transition_def)

lemma transition_accepted_fst: "canTransitionTo sm t \<Longrightarrow> fst (transition t ctx sm) = True"
  by (simp add: transition_def Let_def)

lemma transition_accepted_state:
  "canTransitionTo sm t \<Longrightarrow> state (snd (transition t ctx sm)) = t"
  by (simp add: transition_def Let_def split: option.splits)

text \<open>
  C1. For every current state and every requested target, \<open>transition\<close> returns true
  exactly when the pair (current, target) is in the table of legal transitions; when it
  returns true the state is the target, and when it returns false the whole machine
  (state, profile, lastError, retryCount, and the event log) is as before. From
  \<open>idle\<close>, a request for \<open>watching\<close> returns false and the state stays \<open>idle\<close>.
\<close>

theorem transition_iff_legal:
  "(fst (transition t ctx sm) \<longleftrightarrow> (state sm, t) \<in> set spec_legal_transitions)
   \<and> (fst (transition t ctx sm) \<longrightarrow> state (snd (transition t ctx sm)) = t)
   \<and> (\<not> fst (transition t ctx sm) \<longrightarrow> snd (transition t ctx sm) = sm)
   \<and> (state sm = Idle \<longrightarrow>
        \<not> fst (transition Watching ctx sm) \<and> state (snd (transition Watching ctx sm)) = Idle)"
proof (cases "canTransitionTo sm t")
  case True
  have idle: "state sm = Idle \<Longrightarrow> \<not> canTransitionTo sm Watching"
    by (simp add: canTransitionTo_def)
  from True show ?thesis
    using transition_accepted_fst [of sm t ctx] transition_accepted_state [of sm t ctx]
      canTransitionTo_table [of sm t] transition_rejected [OF idle, of ctx]
    by auto
next
  case False
  have idle: "state sm = Idle \<Longrightarrow> \<not> canTransitionTo sm Watching"
    by (simp add: canTransitionTo_def)
  from False show ?thesis
    using transition_rejected [of sm t ctx] canTransitionTo_table [of sm t]
      transition_rejected [OF idle, of ctx]
    by auto
qed

theorem transition_iff_legal_witness:
  "\<not> fst (transition Watching no_context (new_SyncStateMachine None))
   \<and> snd (transition Watching no_context (new_SyncStateMachine None)) = new_SyncStateMachine None
   \<and> fst (transition Initializing no_context (new_SyncStateMachine None))
   \<and> state (snd (transition Initializing no_context (new_SyncStateMachine None))) = Initializing"
  using transition_iff_legal [of Watching no_context "new_SyncStateMachine None"]
    transition_iff_legal [of Initializing no_context "new_SyncStateMachine None"]
  by (simp add: new_SyncStateMachine_def spec_legal_transitions_def)

text \<open>
  C8. A successful transition into \<open>watching\<close> leaves \<open>retryCount\<close> at 0; a successful
  transition into \<open>recovering\<close> leaves it one higher than before; a successful transition
  into \<open>idle\<close> leaves no profile, no last error and \<open>retryCount\<close> 0, and so does
  \<open>reset\<close>, the other way into \<open>idle\<close>.
\<close>

theorem transition_bookkeeping:
  "(fst (transition Watching ctx sm) \<longrightarrow> retryCount (snd (transition Watching ctx sm)) = 0)
   \<and> (fst (transition Recovering ctx sm) \<longrightarrow>
        retryCount (snd (transition Recovering ctx sm)) = retryCount sm + 1)
   \<and> (fst (transition Idle ctx sm) \<longrightarrow>
        profile (snd (transition Idle ctx sm)) = None
        \<and> lastError (snd (transition Idle ctx sm)) = None
        \<and> retryCount (snd (transition Idle ctx sm)) = 0)
   \<and> state (reset sm) = Idle \<and> profile (reset sm) = None
   \<and> lastError (reset sm) = None \<and> retryCount (reset sm) = 0"
  by (simp add: transition_def reset_def Let_def split: option.splits)

theorem transition_bookkeeping_witness:
  "retryCount (snd (transition Watching no_context
      \<lparr>state = Recovering, profile = None, lastError = None, retryCount = 2,
       maxRetries = 3, eventBus = []\<rparr>)) = 0
   \<and> retryCount (snd (transition Recovering no_context
      \<lparr>state = Error, profile = None, lastError = Some ''boom'', retryCount = 2,
       maxRetries = 3, eventBus = []\<rparr>)) = 3
   \<and> lastError (snd (transition Idle no_context
      \<lparr>state = Error, profile = None, lastError = Some ''boom'', retryCount = 2,
       maxRetries = 3, eventBus = []\<rparr>)) = None
   \<and> retryCount (snd (transition Idle no_context
      \<lparr>state = Error, profile = None, lastError = Some ''boom'', retryCount = 2,
       maxRetries = 3, eventBus = []\<rparr>)) = 0"
  using
    transition_bookkeeping [of no_context
      "\<lparr>state = Recovering, profile = None, lastError = None, retryCount = 2,
        maxRetries = 3, eventBus = []\<rparr>"]
    transition_bookkeeping [of no_context
      "\<lparr>state = Error, profile = None, lastError = Some ''boom'', retryCount = 2,
        maxRetries = 3, eventBus = []\<rparr>"]
  by (simp add: transition_def canTransitionTo_def no_context_def)

section \<open>Theorems: job lifecycle\<close>

text \<open>
  C7. \<open>start\<close> throws exactly when the job is not pending, \<open>complete\<close> and \<open>fail\<close>
  throw exactly when it is not running; a call that throws leaves the job as it was; a
  call that returns moves the status from pending to running (\<open>start\<close>), from running
  to completed (\<open>complete\<close>) or from running to failed (\<open>fail\<close>).
\<close>

theorem SyncJob_lifecycle:
  "(isl (fst (start now j)) \<longleftrightarrow> status j \<noteq> Pending)
   \<and> (isl (fst (complete now ft bt j)) \<longleftrightarrow> status j \<noteq> Running)
   \<and> (isl (fst (fail now e j)) \<longleftrightarrow> status j \<noteq> Running)
   \<and> (isl (fst (start now j)) \<longrightarrow> snd (start now j) = j)
   \<and> (isl (fst (complete now ft bt j)) \<longrightarrow> snd (complete now ft bt j) = j)
   \<and> (isl (fst (fail now e j)) \<longrightarrow> snd (fail now e j) = j)
   \<and> (\<not> isl (fst (start now j)) \<longrightarrow>
        status j = Pending \<and> status (snd (start now j)) = Running)
   \<and> (\<not> isl (fst (complete now ft bt j)) \<longrightarrow>
        status j = Running \<and> status (snd (complete now ft bt j)) = Completed)
   \<and> (\<not> isl (fst (fail now e j)) \<longrightarrow>
        status j = Running \<and> status (snd (fail now e j)) = Failed)"
  by (simp add: start_def complete_def fail_def)

theorem SyncJob_lifecycle_witness:
  "isl (fst (start 7 ((createFullSyncJob ''j1'' 0 deploy_profile)\<lparr>status := Running\<rparr>)))
   \<and> snd (start 7 ((createFullSyncJob ''j1'' 0 deploy_profile)\<lparr>status := Running\<rparr>))
       = (createFullSyncJob ''j1'' 0 deploy_profile)\<lparr>status := Running\<rparr>
   \<and> \<not> isl (fst (start 7 (createFullSyncJob ''j1'' 0 deploy_profile)))
   \<and> status (snd (start 7 (createFullSyncJob ''j1'' 0 deploy_profile))) = Running
   \<and> \<not> isl (fst (complete 9 2 10 (snd (start 7 (createFullSyncJob ''j1'' 0 deploy_profile)))))
   \<and> status (snd (complete 9 2 10 (snd (start 7 (createFullSyncJob ''j1'' 0 deploy_profile)))))
       = Completed
   \<and> \<not> isl (fst (fail 9 ''e'' (snd (start 7 (createFullSyncJob ''j1'' 0 deploy_profile)))))
   \<and> status (snd (fail 9 ''e'' (snd (start 7 (createFullSyncJob ''j1'' 0 deploy_profile)))))
       = Failed
   \<and> isl (fst (fail 9 ''e'' (createFullSyncJob ''j1'' 0 deploy_profile)))
   \<and> snd (fail 9 ''e'' (createFullSyncJob ''j1'' 0 deploy_profile))
       = createFullSyncJob ''j1'' 0 deploy_profile"
  using
    SyncJob_lifecycle [of 7 "(createFullSyncJob ''j1'' 0 deploy_profile)\<lparr>status := Running\<rparr>"
      2 10 "''e''"]
    SyncJob_lifecycle [of 7 "createFullSyncJob ''j1'' 0 deploy_profile" 2 10 "''e''"]
    SyncJob_lifecycle [of 9 "createFullSyncJob ''j1'' 0 deploy_profile" 2 10 "''e''"]
    SyncJob_lifecycle [of 9 "snd (start 7 (createFullSyncJob ''j1'' 0 deploy_profile))"
      2 10 "''e''"]
  by (simp add: createFullSyncJob_def new_SyncJob_def start_def)

section \<open>Theorems: rsync command builder\<close>

lemma ensureTrailingSlash_local: "ensureTrailingSlash ''/local/path'' = ''/local/path/''"
  by (simp add: ensureTrailingSlash_def endsWith_def path_sep_def)

lemma ensureTrailingSlash_remote: "ensureTrailingSlash ''/var/www/app'' = ''/var/www/app/''"
  by (simp add: ensureTrailingSlash_def endsWith_def path_sep_def)

text \<open>
  C4. For the profile with local directory /local/path, remote user deploy, remote host
  prod.example.com, remote directory /var/www/app and the exclude patterns .git and
  node_modules (whatever its alias, port, direction and conflict policy), the full-sync
  command is rsync with exactly the argument vector below. It contains \<open>--delete\<close>, the
  pair \<open>--exclude .git\<close>, the pair \<open>--exclude node_modules\<close> and no other
  \<open>--exclude\<close>, the source /local/path/ and the destination
  deploy@prod.example.com:/var/www/app/.
\<close>

theorem buildFullSync_deploy:
  "buildFullSync
     \<lparr> profile_alias = a, remoteUser = ''deploy'', remoteHost = ''prod.example.com'',
       remoteDir = ''/var/www/app'', localDir = ''/local/path'', sshPort = port,
       direction = d, conflictPolicy = c, exclude = [''.git'', ''node_modules''] \<rparr>
   = \<lparr> command = ''rsync'',
       args = [''-a'', ''-z'',
               ''-e'', ''ssh -p '' @ number_to_string port @ '' -o StrictHostKeyChecking=accept-new'',
               ''--exclude'', ''.git'',
               ''--exclude'', ''node_modules'',
               ''--delete'',
               ''/local/path/'',
               ''deploy@prod.example.com:/var/www/app/''],
       cwd = None \<rparr>
   \<and> ''--delete'' \<in> set (args (buildFullSync
     \<lparr> profile_alias = a, remoteUser = ''deploy'', remoteHost = ''prod.example.com'',
       remoteDir = ''/var/www/app'', localDir = ''/local/path'', sshPort = port,
       direction = d, conflictPolicy = c, exclude = [''.git'', ''node_modules''] \<rparr>))
   \<and> (''--exclude'', ''.git'') \<in> set (arg_pairs (args (buildFullSync
     \<lparr> profile_alias = a, remoteUser = ''deploy'', remoteHost = ''prod.example.com'',
       remoteDir = ''/var/www/app'', localDir = ''/local/path'', sshPort = port,
       direction = d, conflictPolicy = c, exclude = [''.git'', ''node_modules''] \<rparr>)))
   \<and> (''--exclude'', ''node_modules'') \<in> set (arg_pairs (args (buildFullSync
     \<lparr> profile_alias = a, remoteUser = ''deploy'', remoteHost = ''prod.example.com'',
       remoteDir = ''/var/www/app'', localDir = ''/local/path'', sshPort = port,
       direction = d, conflictPolicy = c, exclude = [''.git'', ''node_modules''] \<rparr>)))
   \<and> count_list (args (buildFullSync
     \<lparr> profile_alias = a, remoteUser = ''deploy'', remoteHost = ''prod.example.com'',
       remoteDir = ''/var/www/app'', localDir = ''/local/path'', sshPort = port,
       direction = d, conflictPolicy = c, exclude = [''.git'', ''node_modules''] \<rparr>))
       ''--exclude'' = 2
   \<and> ''/local/path/'' \<in> set (args (buildFullSync
     \<lparr> profile_alias = a, remoteUser = ''deploy'', remoteHost = ''prod.example.com'',
       remoteDir = ''/var/www/app'', localDir = ''/local/path'', sshPort = port,
       direction = d, conflictPolicy = c, exclude = [''.git'', ''node_modules''] \<rparr>))
   \<and> ''deploy@prod.example.com:/var/www/app/'' \<in> set (args (buildFullSync
     \<lparr> profile_alias = a, remoteUser = ''deploy'', remoteHost = ''prod.example.com'',
       remoteDir = ''/var/www/app'', localDir = ''/local/path'', sshPort = port,
       direction = d, conflictPolicy = c, exclude = [''.git'', ''node_modules''] \<rparr>))"
  by (simp add: buildFullSync_def buildBaseArgs_def buildRemoteDestination_def arg_pairs_def
      ensureTrailingSlash_local ensureTrailingSlash_remote)

text \<open>
  C5. For every profile, the incremental command for an empty file list is the
  full-sync command: the same program, the same arguments, the same working directory.
\<close>

theorem buildIncrementalSync_empty: "buildIncrementalSync p [] = buildFullSync p"
  by (simp add: buildIncrementalSync_def)

section \<open>Theorems: rsync exit codes\<close>

text \<open>
  C6. An rsync failure with exit code 23, 24, 30 or 35 is recoverable; one with exit
  code 1 is not.
\<close>

theorem RsyncError_recoverable_codes:
  "recoverable (new_RsyncError 23 se) \<and> recoverable (new_RsyncError 24 se)
   \<and> recoverable (new_RsyncError 30 se) \<and> recoverable (new_RsyncError 35 se)
   \<and> \<not> recoverable (new_RsyncError 1 se)"
  by (simp add: new_RsyncError_def RECOVERABLE_EXIT_CODES_def Let_def)

section \<open>Theorems: strategy selection\<close>

text \<open>
  A job as the watch loop creates it, with one changed file and requested as
  incremental, is a job the full-sync strategy does not declare itself able to handle.
\<close>

theorem FullSyncStrategy_canHandle_counterexample:
  "\<not> canHandle FullSyncStrategy
       (createIncrementalSyncJob ''j1'' 0 deploy_profile [''src/a.ts''])"
  by (simp add: createIncrementalSyncJob_def new_SyncJob_def)

text \<open>
  C9 (amended). The full-sync strategy declares itself able to handle exactly the jobs
  with an empty file list or the strategy \<open>full\<close>. Every other job (a non-empty file
  list, requested as incremental) is one the incremental strategy declares itself able
  to handle, so the selector, which tries incremental before full, always returns a
  strategy that declares it can handle the job.
\<close>

theorem selectStrategy_canHandle:
  "(canHandle FullSyncStrategy job \<longleftrightarrow> files job = [] \<or> strategy job = Full)
   \<and> (\<not> canHandle FullSyncStrategy job \<longrightarrow> canHandle IncrementalSyncStrategy job)
   \<and> canHandle (selectStrategy job) job
   \<and> first_able strategies job = Some (selectStrategy job)"
  by (cases "strategy job") (auto simp: selectStrategy_def strategies_def)

theorem selectStrategy_canHandle_witness:
  "\<not> canHandle FullSyncStrategy (createIncrementalSyncJob ''j1'' 0 deploy_profile [''src/a.ts''])
   \<and> canHandle IncrementalSyncStrategy
        (createIncrementalSyncJob ''j1'' 0 deploy_profile [''src/a.ts''])
   \<and> selectStrategy (createIncrementalSyncJob ''j1'' 0 deploy_profile [''src/a.ts''])
       = IncrementalSyncStrategy
   \<and> canHandle FullSyncStrategy (createFullSyncJob ''j0'' 0 deploy_profile)
   \<and> selectStrategy (createFullSyncJob ''j0'' 0 deploy_profile) = FullSyncStrategy"
  using
    selectStrategy_canHandle [of "createIncrementalSyncJob ''j1'' 0 deploy_profile [''src/a.ts'']"]
    selectStrategy_canHandle [of "createFullSyncJob ''j0'' 0 deploy_profile"]
  by (simp add: createIncrementalSyncJob_def createFullSyncJob_def new_SyncJob_def
      strategies_def)

section \<open>Theorems: credential prompt\<close>

text \<open>
  C10. \<open>promptForPassword\<close> returns null exactly when the operator dismisses the
  prompt. A submitted empty string is returned as the empty string, the offer to save is
  not shown and the secret storage is unchanged. The offer to save is shown exactly when
  a non-empty password was submitted, and the storage changes only after that offer.
\<close>

theorem promptForPassword_null_iff_dismissed:
  "(returned (promptForPassword host user ui st) = None \<longleftrightarrow> inputBox ui = None)
   \<and> (inputBox ui = Some [] \<longrightarrow>
        returned (promptForPassword host user ui st) = Some []
        \<and> \<not> saveOffered (promptForPassword host user ui st)
        \<and> storage (promptForPassword host user ui st) = st)
   \<and> (saveOffered (promptForPassword host user ui st) \<longleftrightarrow>
        (\<exists>pw. inputBox ui = Some pw \<and> pw \<noteq> []))
   \<and> (\<not> saveOffered (promptForPassword host user ui st) \<longrightarrow>
        storage (promptForPassword host user ui st) = st)
   \<and> (inputBox ui \<noteq> None \<longrightarrow>
        returned (promptForPassword host user ui st) = inputBox ui)"
  by (auto simp: promptForPassword_def Let_def split: option.splits)

theorem promptForPassword_null_iff_dismissed_witness:
  "returned (promptForPassword ''h'' ''u''
      \<lparr>inputBox = Some [], quickPick = Some ''Yes, save password''\<rparr> Map.empty) = Some []
   \<and> \<not> saveOffered (promptForPassword ''h'' ''u''
      \<lparr>inputBox = Some [], quickPick = Some ''Yes, save password''\<rparr> Map.empty)
   \<and> storage (promptForPassword ''h'' ''u''
      \<lparr>inputBox = Some [], quickPick = Some ''Yes, save password''\<rparr> Map.empty) = Map.empty
   \<and> returned (promptForPassword ''h'' ''u''
      \<lparr>inputBox = None, quickPick = None\<rparr> Map.empty) = None
   \<and> saveOffered (promptForPassword ''h'' ''u''
      \<lparr>inputBox = Some ''pw'', quickPick = None\<rparr> Map.empty)"
  using
    promptForPassword_null_iff_dismissed [of "''h''" "''u''"
      "\<lparr>inputBox = Some [], quickPick = Some ''Yes, save password''\<rparr>" Map.empty]
    promptForPassword_null_iff_dismissed [of "''h''" "''u''"
      "\<lparr>inputBox = None, quickPick = None\<rparr>" Map.empty]
    promptForPassword_null_iff_dismissed [of "''h''" "''u''"
      "\<lparr>inputBox = Some ''pw'', quickPick = None\<rparr>" Map.empty]
  by simp

section \<open>Theorems: change aggregation\<close>

lemma pending_fold:
  "pendingEvents (fold queueEvent evs w)
   = fold (\<lambda>e. AList.update (path e) e) evs (pendingEvents w)"
  by (induction evs arbitrary: w) (simp_all add: queueEvent_def)

lemma timer_fold: "evs \<noteq> [] \<Longrightarrow> debounceTimer (fold queueEvent evs w)"
  by (induction evs arbitrary: w rule: rev_induct) (simp_all add: queueEvent_def)

lemma onDidChange_fold: "onDidChange (fold queueEvent evs w) = onDidChange w"
  by (induction evs arbitrary: w) (simp_all add: queueEvent_def)

lemma distinct_fold_update:
  "distinct (map fst al) \<Longrightarrow> distinct (map fst (fold (\<lambda>e. AList.update (path e) e) evs al))"
  by (induction evs arbitrary: al) (simp_all add: distinct_update)

lemma set_update_subset: "set (AList.update k v al) \<subseteq> insert (k, v) (set al)"
  by (induction al) auto

lemma keyed_update: "keyed al \<Longrightarrow> keyed (AList.update (path e) e al)"
  using set_update_subset [of "path e" e al] by (auto simp: keyed_def)

lemma keyed_fold:
  "keyed al \<Longrightarrow> keyed (fold (\<lambda>e. AList.update (path e) e) evs al)"
  by (induction evs arbitrary: al) (simp_all add: keyed_update)

lemma map_of_fold_other:
  "events_on p evs = [] \<Longrightarrow>
   map_of (fold (\<lambda>e. AList.update (path e) e) evs al) p = map_of al p"
  by (induction evs arbitrary: al) (auto simp: events_on_def update_conv' split: if_splits)

lemma map_of_fold_last:
  "events_on p evs \<noteq> [] \<Longrightarrow>
   map_of (fold (\<lambda>e. AList.update (path e) e) evs al) p = Some (last (events_on p evs))"
proof (induction evs arbitrary: al)
  case Nil
  then show ?case by (simp add: events_on_def)
next
  case (Cons x xs)
  show ?case
  proof (cases "events_on p xs = []")
    case True
    with Cons.prems have "path x = p" by (auto simp: events_on_def split: if_splits)
    with True show ?thesis by (simp add: map_of_fold_other update_conv' events_on_def)
  next
    case False
    with Cons.IH show ?thesis by (simp add: events_on_def)
  qed
qed

lemma filter_of_distinct_keyed:
  "distinct (map fst al) \<Longrightarrow> keyed al \<Longrightarrow> map_of al p = Some e \<Longrightarrow>
   events_on p (map snd al) = [e]"
proof (induction al)
  case Nil
  then show ?case by simp
next
  case (Cons a al)
  obtain k v where a: "a = (k, v)" by (cases a)
  from Cons.prems a have kv: "path v = k" and ky: "keyed al" and d: "distinct (map fst al)"
    and notin: "k \<notin> fst ` set al"
    by (auto simp: keyed_def)
  show ?case
  proof (cases "k = p")
    case True
    with Cons.prems a have "e = v" by simp
    moreover have "events_on p (map snd al) = []"
      using notin ky True by (force simp: events_on_def keyed_def filter_empty_conv)
    ultimately show ?thesis using a kv True by (simp add: events_on_def)
  next
    case False
    with Cons.prems a have "map_of al p = Some e" by simp
    with Cons.IH d ky have "events_on p (map snd al) = [e]" by simp
    with False kv a show ?thesis by (simp add: events_on_def)
  qed
qed

text \<open>
  C3. Take the watcher at the start of a quiet window (nothing pending) and any sequence
  of events queued before the debounce timer fires. When the timer fires, one batch is
  emitted and the pending map is empty again; for every path on which an event was
  queued, the batch holds exactly one event on that path, and it is the last event that
  was queued on that path.
\<close>

theorem quiet_window_last_wins:
  assumes "pendingEvents w = []" and "e \<in> set evs"
  shows "onDidChange (quiet_window evs w)
           = onDidChange w @ [map snd (pendingEvents (fold queueEvent evs w))]
       \<and> pendingEvents (quiet_window evs w) = []
       \<and> events_on (path e) (last (onDidChange (quiet_window evs w)))
           = [last (events_on (path e) evs)]"
proof -
  let ?al = "pendingEvents (fold queueEvent evs w)"
  from assms(2) have ne: "evs \<noteq> []" and on: "events_on (path e) evs \<noteq> []"
    by (auto simp: events_on_def filter_empty_conv)
  have al: "?al = fold (\<lambda>e. AList.update (path e) e) evs []"
    using assms(1) by (simp add: pending_fold)
  have d: "distinct (map fst ?al)" unfolding al by (rule distinct_fold_update) simp
  have k: "keyed ?al" unfolding al by (rule keyed_fold) (simp add: keyed_def)
  have m: "map_of ?al (path e) = Some (last (events_on (path e) evs))"
    unfolding al by (rule map_of_fold_last [OF on])
  from m have nonempty: "?al \<noteq> []" by auto
  have fired: "onDidChange (quiet_window evs w) = onDidChange w @ [map snd ?al]"
    and cleared: "pendingEvents (quiet_window evs w) = []"
    using nonempty timer_fold [OF ne, of w]
    by (simp_all add: quiet_window_def debounce_fires_def flushEvents_def onDidChange_fold Let_def)
  from filter_of_distinct_keyed [OF d k m] fired cleared show ?thesis by simp
qed

theorem quiet_window_last_wins_witness:
  "pendingEvents new_InotifyWatcher = []
   \<and> ev_modify_a \<in> set [ev_modify_a, ev_create_b, ev_delete_a]
   \<and> events_on ''/w/a.ts''
        (last (onDidChange (quiet_window [ev_modify_a, ev_create_b, ev_delete_a] new_InotifyWatcher)))
       = [ev_delete_a]"
proof -
  have h1: "pendingEvents new_InotifyWatcher = []"
    by (simp add: new_InotifyWatcher_def)
  have h2: "ev_modify_a \<in> set [ev_modify_a, ev_create_b, ev_delete_a]"
    by simp
  have p: "path ev_modify_a = ''/w/a.ts''"
    by (simp add: ev_modify_a_def)
  have l: "last (events_on ''/w/a.ts'' [ev_modify_a, ev_create_b, ev_delete_a]) = ev_delete_a"
    by (simp add: events_on_def ev_modify_a_def ev_create_b_def ev_delete_a_def)
  have "events_on (path ev_modify_a)
          (last (onDidChange
             (quiet_window [ev_modify_a, ev_create_b, ev_delete_a] new_InotifyWatcher)))
        = [last (events_on (path ev_modify_a) [ev_modify_a, ev_create_b, ev_delete_a])]"
    using quiet_window_last_wins [OF h1 h2] by blast
  then show ?thesis
    unfolding p l using h1 h2 by blast
qed

section \<open>Theorems: orchestrator\<close>


lemma do_transition_fields [simp]:
  "inFlight (do_transition t ctx orch) = inFlight orch"
  "recoveryTimeout (do_transition t ctx orch) = recoveryTimeout orch"
  "starting (do_transition t ctx orch) = starting orch"
  by (simp_all add: do_transition_def)

lemma emit_fields [simp]:
  "inFlight (emit ev orch) = inFlight orch"
  "recoveryTimeout (emit ev orch) = recoveryTimeout orch"
  "starting (emit ev orch) = starting orch"
  "state (stateMachine (emit ev orch)) = state (stateMachine orch)"
  "profile (stateMachine (emit ev orch)) = profile (stateMachine orch)"
  by (simp_all add: emit_def)


















end
